theory Spec2Isabelle
  imports Complex_Main
begin

section \<open>The Curve Room 2.0: decision engine and scoring (js/game-engine.js)\<close>

text \<open>
  JavaScript numbers are modelled as \<^typ>\<open>int\<close>: payroll percentages enter through
  \<^verbatim>\<open>parseInt\<close> (slider) or the decision catalogue, and path weights are integers.
  The one place where the source leaves the integers is the mean and the variance of a
  curve.  The source computes them in floating point; the model computes them exactly, in
  \<^typ>\<open>rat\<close>.  The two agree on the comparison with 50 for a curve of five integers of
  the size of payroll percentages: there the exact variance is a multiple of 1/25, it can
  be 50 only when the mean is an integer (and then the floating-point computation is
  exact), and otherwise it is at least 1/25 away from 50, far more than the rounding.  They
  need not agree for longer curves or for very large entries, so every statement below
  that rests on this comparison is about a curve of five entries between 0 and 150
  (\<open>payrollRange\<close>).  A \<^verbatim>\<open>NaN\<close> is \<^term>\<open>None\<close> in an \<^typ>\<open>int option\<close>;
  \<^verbatim>\<open>null\<close> and \<^verbatim>\<open>undefined\<close> are \<^term>\<open>None\<close> as well.
\<close>

subsection \<open>Data\<close>

text \<open>
  A decision of the catalogue: \<^verbatim>\<open>id\<close>, \<^verbatim>\<open>payrollPercentage\<close>, \<^verbatim>\<open>flags.lock\<close>,
  \<^verbatim>\<open>flags.unlock\<close> and \<^verbatim>\<open>pathWeights\<close> (an object from path name to weight).
  The display-only fields (title, description, strategy) are left out.
\<close>

record decision =
  id' :: string
  payrollPercentage :: int
  lock :: "string list"
  unlock :: "string list"
  pathWeights :: "string \<rightharpoonup> int"

text \<open>
  Team data: \<^verbatim>\<open>idealCurve\<close>, \<^verbatim>\<open>startingPayroll\<close> and the optional catalogue
  \<^verbatim>\<open>decisions\<close>, an object keyed by \<^verbatim>\<open>year.toString()\<close>; it is an association list
  here (looked up with \<^const>\<open>map_of\<close>), keyed by the year itself.
\<close>

record teamData =
  idealCurve :: "int list"
  startingPayroll :: int
  teamDecisions :: "(int \<times> decision list) list option"

record path_scores =
  winNow :: int
  rebuild :: int
  hybrid :: int

text \<open>The fields of a \<^verbatim>\<open>DecisionEngine\<close> instance.\<close>

record DecisionEngine =
  team :: teamData
  decisions :: "string option list"
  activeFlags :: "string set"
  pathScores :: path_scores

text \<open>\<^verbatim>\<open>GameEngine.state\<close>.\<close>

record gameState =
  currentTeam :: "teamData option"
  currentYear :: int
  payrollDecisions :: "int list"
  decisionEngine :: "DecisionEngine option"
  healthScore :: "int option"
  isGameComplete :: bool
  gameMode :: string

text \<open>
  What \<^verbatim>\<open>finishGame\<close> returns, without the feedback text and the copies of the curves
  and the team name.
\<close>

record gameResults =
  score :: "int option"
  claimCode :: "string option"
  tier :: "string option"
  xp :: int
  path :: "string option"

datatype js_error = TypeError

subsection \<open>JavaScript arrays\<close>

text \<open>Reading \<^verbatim>\<open>xs[i]\<close>: \<^verbatim>\<open>undefined\<close> outside the array.\<close>

definition js_index :: "'a list \<Rightarrow> int \<Rightarrow> 'a option" where
  "js_index xs i = (if 0 \<le> i \<and> i < int (length xs) then Some (xs ! nat i) else None)"

text \<open>
  Writing \<^verbatim>\<open>xs[i] = v\<close> into an array of slots: past the end the array is extended, the
  slots in between are holes (\<^term>\<open>None\<close> here, read back as \<^verbatim>\<open>undefined\<close>); a negative
  index names a property beside the elements, which are left as they are.
\<close>

definition js_assign :: "'a option list \<Rightarrow> int \<Rightarrow> 'a \<Rightarrow> 'a option list" where
  "js_assign xs i v =
     (if i < 0 then xs
      else if nat i < length xs then xs[nat i := Some v]
      else xs @ replicate (nat i - length xs) None @ [Some v])"

subsection \<open>DecisionEngine\<close>

definition newDecisionEngine :: "teamData \<Rightarrow> DecisionEngine" where
  "newDecisionEngine teamdata =
     \<lparr>team = teamdata, decisions = [None, None, None, None, None], activeFlags = {},
      pathScores = \<lparr>winNow = 0, rebuild = 0, hybrid = 0\<rparr>\<rparr>"

definition getAllDecisions :: "DecisionEngine \<Rightarrow> int \<Rightarrow> decision list" where
  "getAllDecisions e year =
     (case teamDecisions (team e) of
        None \<Rightarrow> []
      | Some catalogue \<Rightarrow> (case map_of catalogue year of None \<Rightarrow> [] | Some ds \<Rightarrow> ds))"

definition getAvailableDecisions :: "DecisionEngine \<Rightarrow> int \<Rightarrow> decision list" where
  "getAvailableDecisions e year =
     (case teamDecisions (team e) of
        None \<Rightarrow> []
      | Some catalogue \<Rightarrow>
          (case map_of catalogue year of
             None \<Rightarrow> []
           | Some allDecisions \<Rightarrow>
               filter (\<lambda>d. \<not> list_ex (\<lambda>f. f \<in> activeFlags e) (lock d)) allDecisions))"

definition findDecision :: "DecisionEngine \<Rightarrow> int \<Rightarrow> string \<Rightarrow> decision option" where
  "findDecision e year decisionId =
     find (\<lambda>d. id' d = decisionId) (getAllDecisions e year)"

text \<open>
  \<^verbatim>\<open>Object.keys(decision.pathWeights).forEach(path => this.pathScores[path] += ...)\<close>:
  each key adds its weight to the accumulator of the same name.  Only the three
  accumulators below are ever read; a key of another name would create a property that
  no code looks at.
\<close>

definition weightOf :: "decision \<Rightarrow> string \<Rightarrow> int" where
  "weightOf d k = (case pathWeights d k of None \<Rightarrow> 0 | Some w \<Rightarrow> w)"

definition addPathWeights :: "path_scores \<Rightarrow> decision \<Rightarrow> path_scores" where
  "addPathWeights scores d =
     \<lparr>winNow = winNow scores + weightOf d ''winNow'',
      rebuild = rebuild scores + weightOf d ''rebuild'',
      hybrid = hybrid scores + weightOf d ''hybrid''\<rparr>"

text \<open>
  \<^verbatim>\<open>DecisionEngine.applyDecision\<close>: the returned decision (\<^term>\<open>None\<close> for \<^verbatim>\<open>null\<close>)
  and the engine after the call.
\<close>

definition applyDecision ::
  "int \<Rightarrow> string \<Rightarrow> DecisionEngine \<Rightarrow> decision option \<times> DecisionEngine" where
  "applyDecision year decisionId e =
     (case findDecision e year decisionId of
        None \<Rightarrow> (None, e)
      | Some d \<Rightarrow>
          (Some d,
           e\<lparr>decisions := js_assign (decisions e) (year - 1) decisionId,
             activeFlags := activeFlags e \<union> set (lock d) \<union> set (unlock d),
             pathScores := addPathWeights (pathScores e) d\<rparr>))"

text \<open>
  \<^verbatim>\<open>if (!decisionId) return null\<close>: \<^verbatim>\<open>null\<close>, \<^verbatim>\<open>undefined\<close> and the empty string
  are falsy.
\<close>

definition getCurrentDecision :: "DecisionEngine \<Rightarrow> int \<Rightarrow> decision option" where
  "getCurrentDecision e year =
     (case js_index (decisions e) (year - 1) of
        Some (Some decisionId) \<Rightarrow>
          (if decisionId = [] then None else findDecision e year decisionId)
      | _ \<Rightarrow> None)"

text \<open>
  \<^verbatim>\<open>this.decisions.map((decisionId, index) => ...)\<close>.  (\<^verbatim>\<open>map\<close> would skip a hole, which
  only a catalogue with a year key of 7 or more can create; the model reads it as
  \<^verbatim>\<open>null\<close>.)
\<close>

definition getPayrollCurve :: "DecisionEngine \<Rightarrow> int list" where
  "getPayrollCurve e =
     map (\<lambda>index.
            (case getCurrentDecision e (int index + 1) of
               Some d \<Rightarrow> payrollPercentage d
             | None \<Rightarrow> 50))
         [0..<length (decisions e)]"

definition determinePath :: "DecisionEngine \<Rightarrow> string" where
  "determinePath e =
     (let scores = pathScores e;
          maxScore = max (winNow scores) (max (rebuild scores) (hybrid scores))
      in if hybrid scores = maxScore \<and> hybrid scores > min (winNow scores) (rebuild scores)
         then ''hybrid''
         else if winNow scores = maxScore \<and> winNow scores > rebuild scores
         then ''winNow''
         else if rebuild scores = maxScore
         then ''rebuild''
         else ''hybrid'')"

subsection \<open>GameEngine: scoring\<close>

text \<open>The per-year points of the slider mode, from \<^verbatim>\<open>diff\<close>.\<close>

definition yearScore :: "int \<Rightarrow> int" where
  "yearScore diff =
     (if diff \<le> 5 then 20
      else if diff \<le> 10 then 17
      else if diff \<le> 15 then 14
      else if diff \<le> 20 then 10
      else if diff \<le> 30 then 6
      else max 0 (4 - (diff - 30) div 10))"

text \<open>
  The body of the loop \<^verbatim>\<open>for (let i = 0; i < 5; i++)\<close> and the loop.  A missing
  element makes \<^verbatim>\<open>diff\<close>, the year's points and from then on the total \<^verbatim>\<open>NaN\<close>.
\<close>

definition yearStep :: "int list \<Rightarrow> int list \<Rightarrow> nat \<Rightarrow> int option \<Rightarrow> int option" where
  "yearStep userCurve ideal i totalScore =
     (case totalScore of
        None \<Rightarrow> None
      | Some t \<Rightarrow>
          (case js_index userCurve (int i) of
             None \<Rightarrow> None
           | Some u \<Rightarrow>
               (case js_index ideal (int i) of
                  None \<Rightarrow> None
                | Some v \<Rightarrow> Some (t + yearScore \<bar>u - v\<bar>))))"

definition sliderYears :: "int list \<Rightarrow> int list \<Rightarrow> int option" where
  "sliderYears userCurve ideal = fold (yearStep userCurve ideal) [0..<5] (Some 0)"

text \<open>
  \<^verbatim>\<open>calculateVariance\<close>, in exact arithmetic (the source rounds to floating point, see
  the remark at the head of the theory); on the empty array both divisions are 0/0.
\<close>

definition calculateVariance :: "int list \<Rightarrow> rat option" where
  "calculateVariance arr =
     (if arr = [] then None
      else
        let n = of_nat (length arr);
            mean = of_int (sum_list arr) / n;
            squaredDiffs = map (\<lambda>x. (of_int x - mean) ^ 2) arr
        in Some (sum_list squaredDiffs / n))"

text \<open>\<^verbatim>\<open>Math.max(...xs)\<close>, with \<^term>\<open>None\<close> for the \<^verbatim>\<open>-Infinity\<close> of no arguments.\<close>

fun Math_max :: "int list \<Rightarrow> int option" where
  "Math_max [] = None"
| "Math_max (x # xs) = Some (fold max xs x)"

text \<open>\<^verbatim>\<open>xs.indexOf(v)\<close>: the first index holding \<^verbatim>\<open>v\<close>, or -1.\<close>

fun indexOf :: "int list \<Rightarrow> int \<Rightarrow> int" where
  "indexOf [] v = - 1"
| "indexOf (x # xs) v =
     (if x = v then 0 else (let r = indexOf xs v in if r < 0 then - 1 else r + 1))"

definition peakIndexOf :: "int list \<Rightarrow> int" where
  "peakIndexOf curve = (case Math_max curve of None \<Rightarrow> - 1 | Some m \<Rightarrow> indexOf curve m)"

text \<open>
  The slider branch of \<^verbatim>\<open>calculateHealthScore\<close>: the years, the flatline penalty and the
  peak bonus, before the final clamp.
\<close>

definition sliderScore :: "int list \<Rightarrow> int list \<Rightarrow> int option" where
  "sliderScore userCurve ideal =
     (let totalScore = sliderYears userCurve ideal;
          curveVariance = calculateVariance userCurve;
          totalScore =
            (if (case curveVariance of None \<Rightarrow> False | Some v \<Rightarrow> v < 50)
             then map_option (\<lambda>t. max 0 (t - 15)) totalScore
             else totalScore);
          peakIndex = peakIndexOf userCurve;
          idealPeakIndex = peakIndexOf ideal
      in if peakIndex = idealPeakIndex then map_option (\<lambda>t. t + 5) totalScore
         else totalScore)"

definition scoreByPath :: "string \<Rightarrow> int list \<Rightarrow> int" where
  "scoreByPath p curve =
     (let sc =
        (if p = ''winNow'' then
           (let early = take 3 curve;
                late = take 2 (drop 3 curve);
                sc = fold (\<lambda>x s. if x \<ge> 85 then s + 15 else if x \<ge> 80 then s + 12
                                    else if x \<ge> 75 then s + 8 else s) early 0;
                sc = fold (\<lambda>x s. if x \<le> 70 then s + 10 else if x \<le> 75 then s + 7
                                    else if x \<le> 80 then s + 4 else s) late sc
            in if card (set curve) \<ge> 4 then sc + 8 else sc)
         else if p = ''rebuild'' then
           (let early = take 3 curve;
                late = take 2 (drop 3 curve);
                sc = fold (\<lambda>x s. if x \<le> 65 then s + 15 else if x \<le> 70 then s + 12
                                    else if x \<le> 75 then s + 8 else s) early 0;
                sc = fold (\<lambda>x s. if x \<ge> 80 then s + 10 else if x \<ge> 75 then s + 7
                                    else if x \<ge> 70 then s + 4 else s) late sc
            in if card (set curve) \<ge> 4 then sc + 8 else sc)
         else
           (let (sc, steadyCount) =
                  fold (\<lambda>x (s, c). if x \<ge> 70 \<and> x \<le> 80 then (s + 15, c + 1)
                                        else if x \<ge> 65 \<and> x \<le> 85 then (s + 10, c)
                                        else (s, c)) curve (0, 0 :: nat)
            in if steadyCount \<ge> 3 then sc + 10 else sc))
      in min 100 (max 0 sc))"

text \<open>
  \<^verbatim>\<open>this.state.gameMode === 'decisions' && this.state.decisionEngine\<close>, the test of
  \<^verbatim>\<open>calculateHealthScore\<close> and \<^verbatim>\<open>finishGame\<close>, and the ideal curve both read:
  \<^verbatim>\<open>currentTeam ? currentTeam.idealCurve : [60, 75, 100, 80, 60]\<close>.
\<close>

definition usesDecisions :: "gameState \<Rightarrow> bool" where
  "usesDecisions g = (gameMode g = ''decisions'' \<and> decisionEngine g \<noteq> None)"

definition idealCurveOf :: "gameState \<Rightarrow> int list" where
  "idealCurveOf g =
     (case currentTeam g of Some t \<Rightarrow> idealCurve t | None \<Rightarrow> [60, 75, 100, 80, 60])"

definition calculateHealthScore :: "gameState \<Rightarrow> gameState" where
  "calculateHealthScore g =
     (let userCurve = payrollDecisions g;
          ideal = idealCurveOf g;
          totalScore =
            (if usesDecisions g
             then Some (scoreByPath (determinePath (the (decisionEngine g))) userCurve)
             else sliderScore userCurve ideal)
      in g\<lparr>healthScore := map_option (\<lambda>t. min 100 (max 0 t)) totalScore\<rparr>)"

subsection \<open>GameEngine: the session\<close>

definition resetGame :: gameState where
  "resetGame =
     \<lparr>currentTeam = None, currentYear = 1, payrollDecisions = [50, 50, 50, 50, 50],
      decisionEngine = None, healthScore = Some 50, isGameComplete = False,
      gameMode = ''slider''\<rparr>"

definition initGame :: "teamData \<Rightarrow> gameState" where
  "initGame teamdata =
     (let hasDecisions = (case teamDecisions teamdata of
                            None \<Rightarrow> False
                          | Some catalogue \<Rightarrow> catalogue \<noteq> [])
      in calculateHealthScore
           \<lparr>currentTeam = Some teamdata, currentYear = 1,
            payrollDecisions = replicate 5 (startingPayroll teamdata),
            decisionEngine = (if hasDecisions then Some (newDecisionEngine teamdata) else None),
            healthScore = Some 50, isGameComplete = False,
            gameMode = (if hasDecisions then ''decisions'' else ''slider'')\<rparr>)"

text \<open>
  \<^verbatim>\<open>setPayroll\<close>.  The write is \<^verbatim>\<open>payrollDecisions[year - 1]\<close> with an index from 0 to 4;
  every state the engine builds holds at least five entries there, so the index is in
  range (\<^const>\<open>list_update\<close> leaves a shorter list as it is).
\<close>

definition setPayroll :: "int \<Rightarrow> int \<Rightarrow> gameState \<Rightarrow> gameState" where
  "setPayroll year payrollPercent g =
     (if year \<ge> 1 \<and> year \<le> 5
      then calculateHealthScore
             (g\<lparr>payrollDecisions := (payrollDecisions g)[nat (year - 1) := payrollPercent]\<rparr>)
      else g)"

definition GameEngine_applyDecision ::
  "int \<Rightarrow> string \<Rightarrow> gameState \<Rightarrow> decision option \<times> gameState" where
  "GameEngine_applyDecision year decisionId g =
     (case decisionEngine g of
        None \<Rightarrow> (None, g)
      | Some e \<Rightarrow>
          (case applyDecision year decisionId e of
             (None, e') \<Rightarrow> (None, g\<lparr>decisionEngine := Some e'\<rparr>)
           | (Some d, e') \<Rightarrow>
               (Some d,
                calculateHealthScore
                  (g\<lparr>decisionEngine := Some e', payrollDecisions := getPayrollCurve e'\<rparr>))))"

definition GameEngine_getAvailableDecisions :: "gameState \<Rightarrow> int \<Rightarrow> decision list" where
  "GameEngine_getAvailableDecisions g year =
     (case decisionEngine g of None \<Rightarrow> [] | Some e \<Rightarrow> getAvailableDecisions e year)"

definition getDeterminedPath :: "gameState \<Rightarrow> string option" where
  "getDeterminedPath g = map_option determinePath (decisionEngine g)"

subsection \<open>GameEngine: tiers and claim codes\<close>

definition CLAIM_CODES :: "(string \<times> (string \<times> string \<times> int) list) list" where
  "CLAIM_CODES =
     [(''GOLD'', [(''winNow'', ''CURVE-301-CHAMPION'', 250),
                  (''rebuild'', ''CURVE-301-ARCHITECT'', 250),
                  (''hybrid'', ''CURVE-301-STRATEGIST'', 250)]),
      (''SILVER'', [(''winNow'', ''CURVE-301-CONTENDER'', 175),
                    (''rebuild'', ''CURVE-301-BUILDER'', 175),
                    (''hybrid'', ''CURVE-301-NEGOTIATOR'', 175)]),
      (''BRONZE'', [(''winNow'', ''CURVE-301-SPENDER'', 125),
                    (''rebuild'', ''CURVE-301-DEVELOPER'', 125),
                    (''hybrid'', ''CURVE-301-BALANCED'', 125)])]"

text \<open>
  \<^verbatim>\<open>this.CLAIM_CODES.GOLD[path].code\<close>: reading \<^verbatim>\<open>.code\<close> of a missing entry throws.
  The path is always one of the three names that \<^verbatim>\<open>determinePath\<close> returns; names that
  a JavaScript object inherits (such as \<^verbatim>\<open>constructor\<close>) are not modelled.
\<close>

definition claimCodeOf :: "string \<Rightarrow> string \<Rightarrow> js_error + string" where
  "claimCodeOf t p =
     (case map_of CLAIM_CODES t of
        None \<Rightarrow> Inl TypeError
      | Some byPath \<Rightarrow>
          (case map_of byPath p of None \<Rightarrow> Inl TypeError | Some (c, x) \<Rightarrow> Inr c))"

text \<open>\<^verbatim>\<open>score >= n\<close> is false for \<^verbatim>\<open>NaN\<close>.\<close>

definition js_ge :: "int option \<Rightarrow> int \<Rightarrow> bool" where
  "js_ge s n = (case s of None \<Rightarrow> False | Some v \<Rightarrow> v \<ge> n)"

text \<open>
  The tier chain of \<^verbatim>\<open>finishGame\<close>, from \<^verbatim>\<open>score\<close> and \<^verbatim>\<open>path\<close>: the claim code, the tier
  and the XP.  \<^verbatim>\<open>if (path)\<close> is false for \<^verbatim>\<open>null\<close> and for the empty string.
\<close>

definition tierChain ::
  "int option \<Rightarrow> string option \<Rightarrow> js_error + (string option \<times> string option \<times> int)" where
  "tierChain sc pth =
     (let pathSet = (case pth of None \<Rightarrow> None | Some p \<Rightarrow> if p = [] then None else Some p)
      in if js_ge sc 85 then
           (case pathSet of
              Some p \<Rightarrow> (case claimCodeOf ''GOLD'' p of
                           Inl err \<Rightarrow> Inl err
                         | Inr c \<Rightarrow> Inr (Some c, Some ''GOLD'', 250))
            | None \<Rightarrow> Inr (Some ''CURVE-301-GOLD'', Some ''GOLD'', 250))
         else if js_ge sc 70 then
           (case pathSet of
              Some p \<Rightarrow> (case claimCodeOf ''SILVER'' p of
                           Inl err \<Rightarrow> Inl err
                         | Inr c \<Rightarrow> Inr (Some c, Some ''SILVER'', 175))
            | None \<Rightarrow> Inr (Some ''CURVE-301-SILVER'', Some ''SILVER'', 175))
         else if js_ge sc 55 then
           (case pathSet of
              Some p \<Rightarrow> (case claimCodeOf ''BRONZE'' p of
                           Inl err \<Rightarrow> Inl err
                         | Inr c \<Rightarrow> Inr (Some c, Some ''BRONZE'', 125))
            | None \<Rightarrow> Inr (Some ''CURVE-301-BRONZE'', Some ''BRONZE'', 125))
         else Inr (None, None, 0))"

definition finishGame :: "gameState \<Rightarrow> js_error + (gameResults \<times> gameState)" where
  "finishGame g0 =
     (let g = calculateHealthScore (g0\<lparr>isGameComplete := True\<rparr>);
          sc = healthScore g;
          pth = (if usesDecisions g then Some (determinePath (the (decisionEngine g)))
                 else None)
      in case tierChain sc pth of
           Inl err \<Rightarrow> Inl err
         | Inr (code, t, x) \<Rightarrow>
             Inr (\<lparr>score = sc, claimCode = code, tier = t, xp = x, path = pth\<rparr>, g))"

section \<open>Sequences of calls\<close>

text \<open>
  A session is a sequence of calls on one engine.  \<open>applyDecisions\<close> runs
  \<^verbatim>\<open>DecisionEngine.applyDecision\<close> call after call, \<open>playDecisions\<close> does so through
  \<^verbatim>\<open>GameEngine.applyDecision\<close>; \<open>appliedDecisions\<close> lists the catalogue entries that
  the calls name, in call order (a call that names no entry applies nothing).
\<close>

definition applyDecisions :: "(int \<times> string) list \<Rightarrow> DecisionEngine \<Rightarrow> DecisionEngine" where
  "applyDecisions calls e =
     fold (\<lambda>(year, decisionId) e'. snd (applyDecision year decisionId e')) calls e"

definition appliedDecisions :: "DecisionEngine \<Rightarrow> (int \<times> string) list \<Rightarrow> decision list" where
  "appliedDecisions e calls =
     List.map_filter (\<lambda>(year, decisionId). findDecision e year decisionId) calls"

definition playDecisions :: "(int \<times> string) list \<Rightarrow> gameState \<Rightarrow> gameState" where
  "playDecisions calls g =
     fold (\<lambda>(year, decisionId) g'. snd (GameEngine_applyDecision year decisionId g')) calls g"

text \<open>The years under which the engine's catalogue holds decisions.\<close>

definition catalogueYears :: "DecisionEngine \<Rightarrow> int list" where
  "catalogueYears e =
     (case teamDecisions (team e) of None \<Rightarrow> [] | Some catalogue \<Rightarrow> map fst catalogue)"

section \<open>The specification's wording\<close>

text \<open>The resolution order of section 4.2, on the three accumulators.\<close>

definition determinePath_spec :: "int \<Rightarrow> int \<Rightarrow> int \<Rightarrow> string" where
  "determinePath_spec w r h =
     (if h = Max {w, r, h} \<and> Min {w, r} < h then ''hybrid''
      else if w = Max {w, r, h} \<and> r < w then ''winNow''
      else if r = Max {w, r, h} then ''rebuild''
      else ''hybrid'')"

text \<open>
  The reference computation of section 4.1 for the score against a target: the per-year
  points of a difference \<open>d\<close>, the population variance (mean of the squared deviations
  from the mean), the lowest index that holds the maximum, and the score built from them.
\<close>

text \<open>
  The input range of section 4.1 (numbers in a plausible range from 0 to 150).
\<close>

definition payrollRange :: "int list \<Rightarrow> bool" where
  "payrollRange xs = (\<forall>x \<in> set xs. 0 \<le> x \<and> x \<le> 150)"

definition perYearPoints :: "int \<Rightarrow> int" where
  "perYearPoints d =
     (if d \<le> 5 then 20 else if d \<le> 10 then 17 else if d \<le> 15 then 14
      else if d \<le> 20 then 10 else if d \<le> 30 then 6
      else max 0 (4 - \<lfloor>(of_int (d - 30) :: rat) / 10\<rfloor>))"

definition populationVariance :: "int list \<Rightarrow> rat" where
  "populationVariance xs =
     (let n = of_nat (length xs);
          mu = (\<Sum>x\<leftarrow>xs. of_int x) / n
      in (\<Sum>x\<leftarrow>xs. (of_int x - mu)\<^sup>2) / n)"

definition firstMaxIndex :: "int list \<Rightarrow> nat" where
  "firstMaxIndex xs = length (takeWhile (\<lambda>x. x \<noteq> Max (set xs)) xs)"

definition referenceScore :: "int list \<Rightarrow> int list \<Rightarrow> int" where
  "referenceScore curve target =
     (let base = (\<Sum>i\<leftarrow>[0..<5]. perYearPoints \<bar>curve ! i - target ! i\<bar>);
          penalised = (if populationVariance curve < 50 then max 0 (base - 15) else base);
          timed = (if firstMaxIndex curve = firstMaxIndex target then penalised + 5
                   else penalised)
      in min 100 (max 0 timed))"

text \<open>
  The reward table of section 6.  The tiers carry the labels of the source
  (\<^verbatim>\<open>'GOLD'\<close>, \<^verbatim>\<open>'SILVER'\<close>, \<^verbatim>\<open>'BRONZE'\<close>, and \<^verbatim>\<open>null\<close> for no tier); the path is
  \<^term>\<open>None\<close> in slider mode.
\<close>

definition tier_spec :: "int \<Rightarrow> string option" where
  "tier_spec s =
     (if 85 \<le> s then Some ''GOLD''
      else if 70 \<le> s \<and> s < 85 then Some ''SILVER''
      else if 55 \<le> s \<and> s < 70 then Some ''BRONZE''
      else None)"

definition xp_spec :: "string option \<Rightarrow> int" where
  "xp_spec t =
     (if t = Some ''GOLD'' then 250 else if t = Some ''SILVER'' then 175
      else if t = Some ''BRONZE'' then 125 else 0)"

definition code_spec :: "string option \<Rightarrow> string option \<Rightarrow> string option" where
  "code_spec t pth =
     (if t = Some ''GOLD'' then
        (if pth = None then Some ''CURVE-301-GOLD''
         else if pth = Some ''winNow'' then Some ''CURVE-301-CHAMPION''
         else if pth = Some ''rebuild'' then Some ''CURVE-301-ARCHITECT''
         else Some ''CURVE-301-STRATEGIST'')
      else if t = Some ''SILVER'' then
        (if pth = None then Some ''CURVE-301-SILVER''
         else if pth = Some ''winNow'' then Some ''CURVE-301-CONTENDER''
         else if pth = Some ''rebuild'' then Some ''CURVE-301-BUILDER''
         else Some ''CURVE-301-NEGOTIATOR'')
      else if t = Some ''BRONZE'' then
        (if pth = None then Some ''CURVE-301-BRONZE''
         else if pth = Some ''winNow'' then Some ''CURVE-301-SPENDER''
         else if pth = Some ''rebuild'' then Some ''CURVE-301-DEVELOPER''
         else Some ''CURVE-301-BALANCED'')
      else None)"

section \<open>Example sessions\<close>

text \<open>
  A catalogue in the shape of the end-to-end scenario of section 8: option A of year 1
  with payroll 90 and weights winNow 25, rebuild -15, hybrid 5, four analogous options for
  the years 2 to 5, and a second year-1 option R that leans to rebuild.
\<close>

definition optionA :: decision where
  "optionA = \<lparr>id' = ''A'', payrollPercentage = 90, lock = [''rebuild_mode''],
     unlock = [''star_signed''],
     pathWeights = [''winNow'' \<mapsto> 25, ''rebuild'' \<mapsto> - 15, ''hybrid'' \<mapsto> 5]\<rparr>"

definition optionR :: decision where
  "optionR = \<lparr>id' = ''R'', payrollPercentage = 50, lock = [''sign_fa''],
     unlock = [''young_core''],
     pathWeights = [''winNow'' \<mapsto> - 10, ''rebuild'' \<mapsto> 25, ''hybrid'' \<mapsto> 5]\<rparr>"

definition optionB :: decision where
  "optionB = \<lparr>id' = ''B'', payrollPercentage = 95, lock = [], unlock = [],
     pathWeights = [''winNow'' \<mapsto> 25, ''rebuild'' \<mapsto> - 15, ''hybrid'' \<mapsto> 5]\<rparr>"

definition optionC :: decision where
  "optionC = \<lparr>id' = ''C'', payrollPercentage = 100, lock = [], unlock = [],
     pathWeights = [''winNow'' \<mapsto> 25, ''rebuild'' \<mapsto> - 15, ''hybrid'' \<mapsto> 5]\<rparr>"

definition optionD :: decision where
  "optionD = \<lparr>id' = ''D'', payrollPercentage = 70, lock = [], unlock = [],
     pathWeights = [''winNow'' \<mapsto> 25, ''rebuild'' \<mapsto> - 15, ''hybrid'' \<mapsto> 5]\<rparr>"

definition optionE :: decision where
  "optionE = \<lparr>id' = ''E'', payrollPercentage = 60, lock = [], unlock = [],
     pathWeights = [''winNow'' \<mapsto> 25, ''rebuild'' \<mapsto> - 15, ''hybrid'' \<mapsto> 5]\<rparr>"

definition winNowTeam :: teamData where
  "winNowTeam = \<lparr>idealCurve = [90, 95, 100, 85, 70], startingPayroll = 50,
     teamDecisions = Some [(1, [optionA, optionR]), (2, [optionB]), (3, [optionC]),
                           (4, [optionD]), (5, [optionE])]\<rparr>"

text \<open>A catalogue that also holds a decision under the year 6.\<close>

definition sixYearTeam :: teamData where
  "sixYearTeam = \<lparr>idealCurve = [90, 95, 100, 85, 70], startingPayroll = 50,
     teamDecisions = Some [(1, [optionA]), (6, [optionB])]\<rparr>"

text \<open>A slider-mode session that holds the given curve and whose team has the given target.\<close>

definition sliderGame :: "int list \<Rightarrow> int list \<Rightarrow> gameState" where
  "sliderGame curve target =
     \<lparr>currentTeam = Some \<lparr>idealCurve = target, startingPayroll = 50, teamDecisions = None\<rparr>,
      currentYear = 1, payrollDecisions = curve, decisionEngine = None,
      healthScore = Some 50, isGameComplete = False, gameMode = ''slider''\<rparr>"

section \<open>Auxiliary facts\<close>

subsection \<open>Paths and tiers\<close>

lemma determinePath_cases:
  "determinePath e = ''hybrid'' \<or> determinePath e = ''winNow'' \<or> determinePath e = ''rebuild''"
  by (simp add: determinePath_def Let_def)

lemma claimCodeOf_simps:
  "claimCodeOf ''GOLD'' ''winNow'' = Inr ''CURVE-301-CHAMPION''"
  "claimCodeOf ''GOLD'' ''rebuild'' = Inr ''CURVE-301-ARCHITECT''"
  "claimCodeOf ''GOLD'' ''hybrid'' = Inr ''CURVE-301-STRATEGIST''"
  "claimCodeOf ''SILVER'' ''winNow'' = Inr ''CURVE-301-CONTENDER''"
  "claimCodeOf ''SILVER'' ''rebuild'' = Inr ''CURVE-301-BUILDER''"
  "claimCodeOf ''SILVER'' ''hybrid'' = Inr ''CURVE-301-NEGOTIATOR''"
  "claimCodeOf ''BRONZE'' ''winNow'' = Inr ''CURVE-301-SPENDER''"
  "claimCodeOf ''BRONZE'' ''rebuild'' = Inr ''CURVE-301-DEVELOPER''"
  "claimCodeOf ''BRONZE'' ''hybrid'' = Inr ''CURVE-301-BALANCED''"
  by (simp_all add: claimCodeOf_def CLAIM_CODES_def)

lemma tier_spec_cases:
  "85 \<le> s \<Longrightarrow> tier_spec s = Some ''GOLD''"
  "70 \<le> s \<Longrightarrow> s < 85 \<Longrightarrow> tier_spec s = Some ''SILVER''"
  "55 \<le> s \<Longrightarrow> s < 70 \<Longrightarrow> tier_spec s = Some ''BRONZE''"
  "s < 55 \<Longrightarrow> tier_spec s = None"
  by (simp_all add: tier_spec_def)

lemma xp_spec_simps:
  "xp_spec (Some ''GOLD'') = 250" "xp_spec (Some ''SILVER'') = 175"
  "xp_spec (Some ''BRONZE'') = 125" "xp_spec None = 0"
  by (simp_all add: xp_spec_def)

lemma code_spec_simps:
  "code_spec (Some ''GOLD'') None = Some ''CURVE-301-GOLD''"
  "code_spec (Some ''GOLD'') (Some ''winNow'') = Some ''CURVE-301-CHAMPION''"
  "code_spec (Some ''GOLD'') (Some ''rebuild'') = Some ''CURVE-301-ARCHITECT''"
  "code_spec (Some ''GOLD'') (Some ''hybrid'') = Some ''CURVE-301-STRATEGIST''"
  "code_spec (Some ''SILVER'') None = Some ''CURVE-301-SILVER''"
  "code_spec (Some ''SILVER'') (Some ''winNow'') = Some ''CURVE-301-CONTENDER''"
  "code_spec (Some ''SILVER'') (Some ''rebuild'') = Some ''CURVE-301-BUILDER''"
  "code_spec (Some ''SILVER'') (Some ''hybrid'') = Some ''CURVE-301-NEGOTIATOR''"
  "code_spec (Some ''BRONZE'') None = Some ''CURVE-301-BRONZE''"
  "code_spec (Some ''BRONZE'') (Some ''winNow'') = Some ''CURVE-301-SPENDER''"
  "code_spec (Some ''BRONZE'') (Some ''rebuild'') = Some ''CURVE-301-DEVELOPER''"
  "code_spec (Some ''BRONZE'') (Some ''hybrid'') = Some ''CURVE-301-BALANCED''"
  "code_spec None pth = None"
  by (simp_all add: code_spec_def)

lemma tierChain_cases:
  "85 \<le> s \<Longrightarrow> tierChain (Some s) None = Inr (Some ''CURVE-301-GOLD'', Some ''GOLD'', 250)"
  "85 \<le> s \<Longrightarrow> tierChain (Some s) (Some ''winNow'') = Inr (Some ''CURVE-301-CHAMPION'', Some ''GOLD'', 250)"
  "85 \<le> s \<Longrightarrow> tierChain (Some s) (Some ''rebuild'') = Inr (Some ''CURVE-301-ARCHITECT'', Some ''GOLD'', 250)"
  "85 \<le> s \<Longrightarrow> tierChain (Some s) (Some ''hybrid'') = Inr (Some ''CURVE-301-STRATEGIST'', Some ''GOLD'', 250)"
  "70 \<le> s \<Longrightarrow> s < 85 \<Longrightarrow> tierChain (Some s) None = Inr (Some ''CURVE-301-SILVER'', Some ''SILVER'', 175)"
  "70 \<le> s \<Longrightarrow> s < 85 \<Longrightarrow> tierChain (Some s) (Some ''winNow'') = Inr (Some ''CURVE-301-CONTENDER'', Some ''SILVER'', 175)"
  "70 \<le> s \<Longrightarrow> s < 85 \<Longrightarrow> tierChain (Some s) (Some ''rebuild'') = Inr (Some ''CURVE-301-BUILDER'', Some ''SILVER'', 175)"
  "70 \<le> s \<Longrightarrow> s < 85 \<Longrightarrow> tierChain (Some s) (Some ''hybrid'') = Inr (Some ''CURVE-301-NEGOTIATOR'', Some ''SILVER'', 175)"
  "55 \<le> s \<Longrightarrow> s < 70 \<Longrightarrow> tierChain (Some s) None = Inr (Some ''CURVE-301-BRONZE'', Some ''BRONZE'', 125)"
  "55 \<le> s \<Longrightarrow> s < 70 \<Longrightarrow> tierChain (Some s) (Some ''winNow'') = Inr (Some ''CURVE-301-SPENDER'', Some ''BRONZE'', 125)"
  "55 \<le> s \<Longrightarrow> s < 70 \<Longrightarrow> tierChain (Some s) (Some ''rebuild'') = Inr (Some ''CURVE-301-DEVELOPER'', Some ''BRONZE'', 125)"
  "55 \<le> s \<Longrightarrow> s < 70 \<Longrightarrow> tierChain (Some s) (Some ''hybrid'') = Inr (Some ''CURVE-301-BALANCED'', Some ''BRONZE'', 125)"
  "s < 55 \<Longrightarrow> tierChain (Some s) pth = Inr (None, None, 0)"
  by (simp_all add: tierChain_def js_ge_def claimCodeOf_simps)

lemma tierChain_table:
  assumes "pth = None \<or> pth = Some ''winNow'' \<or> pth = Some ''rebuild'' \<or> pth = Some ''hybrid''"
  shows "tierChain (Some s) pth
           = Inr (code_spec (tier_spec s) pth, tier_spec s, xp_spec (tier_spec s))"
proof -
  consider "85 \<le> s" | "70 \<le> s" "s < 85" | "55 \<le> s" "s < 70" | "s < 55"
    by linarith
  then show ?thesis
  proof cases
    case 1
    with assms show ?thesis
      by (elim disjE) (simp_all only: tierChain_cases tier_spec_cases xp_spec_simps code_spec_simps)
  next
    case 2
    with assms show ?thesis
      by (elim disjE) (simp_all only: tierChain_cases tier_spec_cases xp_spec_simps code_spec_simps)
  next
    case 3
    with assms show ?thesis
      by (elim disjE) (simp_all only: tierChain_cases tier_spec_cases xp_spec_simps code_spec_simps)
  next
    case 4
    with assms show ?thesis
      by (simp only: tierChain_cases tier_spec_cases xp_spec_simps code_spec_simps)
  qed
qed

lemma tierChain_NaN: "tierChain None pth = Inr (None, None, 0)"
  by (simp add: tierChain_def js_ge_def)

lemma tierChain_total:
  assumes "pth = None \<or> pth = Some ''winNow'' \<or> pth = Some ''rebuild'' \<or> pth = Some ''hybrid''"
  shows "\<exists>code t x. tierChain sc pth = Inr (code, t, x)"
proof (cases sc)
  case None
  then show ?thesis
    by (simp add: tierChain_NaN)
next
  case (Some s)
  then show ?thesis
    using tierChain_table [OF assms, of s] by simp
qed

subsection \<open>The winNow scoring\<close>

lemma fold_early_le:
  fixes s0 :: int and xs :: "int list"
  shows "fold (\<lambda>x s. if x \<ge> 85 then s + 15 else if x \<ge> 80 then s + 12
                 else if x \<ge> 75 then s + 8 else s) xs s0 \<le> s0 + 15 * int (length xs)"
proof (induction xs arbitrary: s0)
  case Nil
  show ?case by simp
next
  case (Cons x xs)
  let ?F = "\<lambda>(x::int) (s::int). if x \<ge> 85 then s + 15 else if x \<ge> 80 then s + 12
                 else if x \<ge> 75 then s + 8 else s"
  have "fold ?F xs (?F x s0) \<le> ?F x s0 + 15 * int (length xs)"
    by (rule Cons.IH)
  moreover have "?F x s0 \<le> s0 + 15"
    by simp
  ultimately show ?case
    by simp
qed

lemma fold_late_le:
  fixes s0 :: int and xs :: "int list"
  shows "fold (\<lambda>x s. if x \<le> 70 then s + 10 else if x \<le> 75 then s + 7
                 else if x \<le> 80 then s + 4 else s) xs s0 \<le> s0 + 10 * int (length xs)"
proof (induction xs arbitrary: s0)
  case Nil
  show ?case by simp
next
  case (Cons x xs)
  let ?F = "\<lambda>(x::int) (s::int). if x \<le> 70 then s + 10 else if x \<le> 75 then s + 7
                 else if x \<le> 80 then s + 4 else s"
  have "fold ?F xs (?F x s0) \<le> ?F x s0 + 10 * int (length xs)"
    by (rule Cons.IH)
  moreover have "?F x s0 \<le> s0 + 10"
    by simp
  ultimately show ?case
    by simp
qed

lemma winNow_le_73: "scoreByPath ''winNow'' curve \<le> 73"
proof -
  let ?E = "\<lambda>(x::int) (s::int). if x \<ge> 85 then s + 15 else if x \<ge> 80 then s + 12
                 else if x \<ge> 75 then s + 8 else s"
  let ?L = "\<lambda>(x::int) (s::int). if x \<le> 70 then s + 10 else if x \<le> 75 then s + 7
                 else if x \<le> 80 then s + 4 else s"
  have e: "fold ?E (take 3 curve) 0 \<le> 45"
    using fold_early_le [of "take 3 curve" 0] by simp
  have "fold ?L (take 2 (drop 3 curve)) (fold ?E (take 3 curve) 0)
          \<le> fold ?E (take 3 curve) 0 + 10 * int (length (take 2 (drop 3 curve)))"
    by (rule fold_late_le)
  with e have l: "fold ?L (take 2 (drop 3 curve)) (fold ?E (take 3 curve) 0) \<le> 65"
    by simp
  show ?thesis
    unfolding scoreByPath_def Let_def using l by simp
qed

subsection \<open>Sequences of decisions\<close>

lemma team_applyDecision [simp]: "team (snd (applyDecision year decisionId e)) = team e"
  by (simp add: applyDecision_def split: option.split)

lemma findDecision_team:
  "team e' = team e \<Longrightarrow> findDecision e' year decisionId = findDecision e year decisionId"
  by (simp add: findDecision_def getAllDecisions_def)

lemma applyDecisions_Cons:
  "applyDecisions ((year, decisionId) # calls) e
     = applyDecisions calls (snd (applyDecision year decisionId e))"
  by (simp add: applyDecisions_def)

lemma applyDecisions_append:
  "applyDecisions (calls @ later) e = applyDecisions later (applyDecisions calls e)"
  by (simp add: applyDecisions_def)

lemma appliedDecisions_team:
  "team e' = team e \<Longrightarrow> appliedDecisions e' calls = appliedDecisions e calls"
  by (simp add: appliedDecisions_def findDecision_team [of e' e])

lemma appliedDecisions_Cons:
  "appliedDecisions e ((year, decisionId) # calls)
     = (case findDecision e year decisionId of
          None \<Rightarrow> appliedDecisions e calls
        | Some d \<Rightarrow> d # appliedDecisions e calls)"
  by (simp add: appliedDecisions_def List.map_filter_simps split: option.split)

lemma applyDecisions_accumulate:
  "activeFlags (applyDecisions calls e)
     = activeFlags e \<union> (\<Union>d \<in> set (appliedDecisions e calls). set (lock d) \<union> set (unlock d))
   \<and> winNow (pathScores (applyDecisions calls e))
     = winNow (pathScores e) + (\<Sum>d\<leftarrow>appliedDecisions e calls. weightOf d ''winNow'')
   \<and> rebuild (pathScores (applyDecisions calls e))
     = rebuild (pathScores e) + (\<Sum>d\<leftarrow>appliedDecisions e calls. weightOf d ''rebuild'')
   \<and> hybrid (pathScores (applyDecisions calls e))
     = hybrid (pathScores e) + (\<Sum>d\<leftarrow>appliedDecisions e calls. weightOf d ''hybrid'')"
proof (induction calls arbitrary: e)
  case Nil
  show ?case by (simp add: applyDecisions_def appliedDecisions_def List.map_filter_simps)
next
  case (Cons c calls)
  obtain year decisionId where c: "c = (year, decisionId)"
    by (cases c)
  let ?e = "snd (applyDecision year decisionId e)"
  have same: "appliedDecisions ?e calls = appliedDecisions e calls"
    by (rule appliedDecisions_team) simp
  note ih = Cons.IH [of ?e, unfolded same]
  show ?case
  proof (cases "findDecision e year decisionId")
    case None
    then have "?e = e"
      by (simp add: applyDecision_def)
    with ih None show ?thesis
      by (simp add: c applyDecisions_Cons appliedDecisions_Cons)
  next
    case (Some d)
    then have "activeFlags ?e = activeFlags e \<union> set (lock d) \<union> set (unlock d)"
      and "pathScores ?e = addPathWeights (pathScores e) d"
      by (simp_all add: applyDecision_def)
    with ih Some show ?thesis
      by (auto simp add: c applyDecisions_Cons appliedDecisions_Cons addPathWeights_def)
  qed
qed

subsection \<open>The slider scoring\<close>

lemma floor_tenth: "\<lfloor>(of_int k :: rat) / 10\<rfloor> = k div 10"
  using floor_divide_of_int_eq [of k 10, where ?'a = rat] by simp

lemma yearScore_perYearPoints: "yearScore d = perYearPoints d"
  unfolding yearScore_def perYearPoints_def floor_tenth ..

lemma of_int_sum_list_rat: "(of_int (sum_list xs) :: rat) = (\<Sum>x\<leftarrow>xs. of_int x)"
  by (induction xs) simp_all

lemma calculateVariance_population:
  "xs \<noteq> [] \<Longrightarrow> calculateVariance xs = Some (populationVariance xs)"
  by (simp add: calculateVariance_def populationVariance_def Let_def of_int_sum_list_rat)

lemma indexOf_takeWhile:
  "v \<in> set xs \<Longrightarrow> indexOf xs v = int (length (takeWhile (\<lambda>x. x \<noteq> v) xs))"
  by (induction xs) (auto simp add: Let_def)

lemma Math_max_Max:
  "Math_max xs = Some (Max (set xs))" if "xs \<noteq> []"
proof (cases xs)
  case Nil
  then show ?thesis
    using that by simp
next
  case (Cons a list)
  then show ?thesis
    by (simp only: Math_max.simps Max.set_eq_fold)
qed

lemma peakIndexOf_firstMaxIndex:
  "xs \<noteq> [] \<Longrightarrow> peakIndexOf xs = int (firstMaxIndex xs)"
  by (simp add: peakIndexOf_def firstMaxIndex_def Math_max_Max indexOf_takeWhile)

lemma sliderYears_five:
  "sliderYears (a # b # c # d # e # us) (a' # b' # c' # d' # e' # ts)
     = Some (yearScore \<bar>a - a'\<bar> + yearScore \<bar>b - b'\<bar> + yearScore \<bar>c - c'\<bar>
             + yearScore \<bar>d - d'\<bar> + yearScore \<bar>e - e'\<bar>)"
  by (simp add: sliderYears_def yearStep_def js_index_def eval_nat_numeral)

lemma five_elements:
  "5 \<le> length xs \<Longrightarrow> \<exists>a b c d e us. xs = a # b # c # d # e # us"
  by (auto simp add: Suc_le_length_iff eval_nat_numeral)

lemma sliderYears_short:
  assumes "length us < 5 \<or> length ts < 5"
  shows "sliderYears us ts = None"
proof -
  have "js_index us 4 = None \<or> js_index ts 4 = None"
    using assms by (auto simp add: js_index_def)
  then have last: "yearStep us ts 4 x = None" for x
    by (auto simp add: yearStep_def split: option.splits)
  have "[0..<5] = [0..<4] @ [4::nat]"
    by (simp add: eval_nat_numeral)
  then have "sliderYears us ts = yearStep us ts 4 (fold (yearStep us ts) [0..<4] (Some 0))"
    by (simp only: sliderYears_def fold_append fold_simps comp_apply id_apply)
  with last show ?thesis
    by simp
qed

lemma healthScore_slider:
  "\<not> usesDecisions g \<Longrightarrow>
     healthScore (calculateHealthScore g)
       = map_option (\<lambda>t. min 100 (max 0 t)) (sliderScore (payrollDecisions g) (idealCurveOf g))"
  by (simp add: calculateHealthScore_def Let_def)

lemma sum_upto_five: "(\<Sum>i\<leftarrow>[0..<5]. f i) = f 0 + f 1 + f 2 + f 3 + (f 4 :: int)"
  by (simp add: eval_nat_numeral)

lemma sliderScore_reference:
  assumes "5 \<le> length us" and "5 \<le> length ts"
  shows "map_option (\<lambda>t. min 100 (max 0 t)) (sliderScore us ts) = Some (referenceScore us ts)"
proof -
  obtain a b c d e r where us: "us = a # b # c # d # e # r"
    using five_elements [OF assms(1)] by blast
  obtain a' b' c' d' e' r' where ts: "ts = a' # b' # c' # d' # e' # r'"
    using five_elements [OF assms(2)] by blast
  have ne: "us \<noteq> []" "ts \<noteq> []"
    by (simp_all add: us ts)
  have years: "sliderYears us ts = Some (\<Sum>i\<leftarrow>[0..<5]. perYearPoints \<bar>us ! i - ts ! i\<bar>)"
    unfolding sum_upto_five by (simp add: us ts sliderYears_five yearScore_perYearPoints)
  show ?thesis
    unfolding sliderScore_def referenceScore_def Let_def years
      calculateVariance_population [OF ne(1)]
      peakIndexOf_firstMaxIndex [OF ne(1)] peakIndexOf_firstMaxIndex [OF ne(2)]
    by simp
qed

lemma sliderScore_same:
  assumes "length us = 5"
  shows "map_option (\<lambda>t. min 100 (max 0 t)) (sliderScore us us)
           = Some (if populationVariance us < 50 then 90 else 100)"
proof -
  obtain a b c d e r where us: "us = a # b # c # d # e # r"
    using five_elements [of us] assms by auto
  have ne: "us \<noteq> []"
    by (simp add: us)
  have years: "sliderYears us us = Some 100"
    by (simp add: us sliderYears_five yearScore_def)
  show ?thesis
    unfolding sliderScore_def Let_def years calculateVariance_population [OF ne]
    by simp
qed

lemma referenceScore_range: "0 \<le> referenceScore us ts \<and> referenceScore us ts \<le> 100"
  by (simp add: referenceScore_def Let_def)

lemma sliderScore_short:
  assumes "length us < 5 \<or> length ts < 5"
  shows "sliderScore us ts = None"
  unfolding sliderScore_def Let_def sliderYears_short [OF assms] by simp

subsection \<open>Catalogue lookups\<close>

lemma getAllDecisions_no_year:
  "year \<notin> set (catalogueYears e) \<Longrightarrow> getAllDecisions e year = []"
proof (cases "teamDecisions (team e)")
  case None
  then show ?thesis
    by (simp add: getAllDecisions_def)
next
  case (Some catalogue)
  assume "year \<notin> set (catalogueYears e)"
  with Some have "map_of catalogue year = None"
    by (simp add: catalogueYears_def map_of_eq_None_iff)
  with Some show ?thesis
    by (simp add: getAllDecisions_def)
qed

lemma getAvailableDecisions_filter:
  "getAvailableDecisions e year
     = filter (\<lambda>d. \<not> list_ex (\<lambda>f. f \<in> activeFlags e) (lock d)) (getAllDecisions e year)"
  by (simp add: getAvailableDecisions_def getAllDecisions_def split: option.splits)

lemma findDecision_unknown:
  "decisionId \<notin> set (map id' (getAllDecisions e year)) \<Longrightarrow> findDecision e year decisionId = None"
  by (auto simp add: findDecision_def find_None_iff)

subsection \<open>The example sessions\<close>

lemma payrollRange_simps:
  "payrollRange []"
  "payrollRange (x # xs) = (0 \<le> x \<and> x \<le> 150 \<and> payrollRange xs)"
  by (simp_all add: payrollRange_def)

lemma sliderGame_simps:
  "\<not> usesDecisions (sliderGame us ts)"
  "payrollDecisions (sliderGame us ts) = us"
  "idealCurveOf (sliderGame us ts) = ts"
  by (simp_all add: sliderGame_def usesDecisions_def idealCurveOf_def)

lemma winNow_session:
  "(let g = playDecisions [(1, ''A''), (2, ''B''), (3, ''C''), (4, ''D''), (5, ''E'')]
              (initGame winNowTeam)
    in getDeterminedPath g = Some ''winNow'' \<and> payrollDecisions g = [90, 95, 100, 70, 60]
       \<and> healthScore g = Some 73)"
  by code_simp

section \<open>The claims\<close>

subsection \<open>C1: the end-to-end winNow scenario\<close>

text \<open>
  C1 says that after five winNow-heavy decisions determinePath returns winNow, and that
  every curve with at least 85 in the years 1 to 3 and at most 70 in the years 4 and 5
  scores at least 85 on the winNow path.  The first half holds in the scenario of the
  specification; the second does not: the winNow scoring grants at most 3 * 15 + 2 * 10
  points and a bonus of 8, so no curve scores more than 73.  With the payrolls 90, 95,
  100, 70, 60 the session ends on the path winNow with the score 73.
\<close>

theorem winNow_scenario_misses_gold:
  "getDeterminedPath
     (playDecisions [(1, ''A''), (2, ''B''), (3, ''C''), (4, ''D''), (5, ''E'')]
        (initGame winNowTeam)) = Some ''winNow''
   \<and> payrollDecisions
       (playDecisions [(1, ''A''), (2, ''B''), (3, ''C''), (4, ''D''), (5, ''E'')]
          (initGame winNowTeam)) = [90, 95, 100, 70, 60]
   \<and> scoreByPath ''winNow'' [90, 95, 100, 70, 60] = 73
   \<and> healthScore
       (playDecisions [(1, ''A''), (2, ''B''), (3, ''C''), (4, ''D''), (5, ''E'')]
          (initGame winNowTeam)) = Some 73
   \<and> scoreByPath ''winNow'' curve \<le> 73"
proof -
  have "scoreByPath ''winNow'' [90, 95, 100, 70, 60] = 73"
    by code_simp
  then show ?thesis
    using winNow_session winNow_le_73 [of curve] by (simp add: Let_def)
qed

subsection \<open>C2: the score against a target\<close>

text \<open>
  C2. In slider mode, for a curve and a target of five numbers each, within the input
  range from 0 to 150, the health score is the reference computation: the sum of the
  per-year points of the five absolute differences, less 15 (not below 0) when the
  population variance of the curve is under 50, plus 5 when the lowest index of the
  curve's maximum is that of the target's maximum, clamped to the range from 0 to 100.
\<close>

theorem slider_score_is_reference:
  assumes "\<not> usesDecisions g"
    and "length (payrollDecisions g) = 5" and "length (idealCurveOf g) = 5"
    and "payrollRange (payrollDecisions g)" and "payrollRange (idealCurveOf g)"
  shows "healthScore (calculateHealthScore g)
           = Some (referenceScore (payrollDecisions g) (idealCurveOf g))"
  using assms by (simp add: healthScore_slider sliderScore_reference)

text \<open>The flat curve of 50 against the target 60, 75, 100, 80, 60 scores 33.\<close>

theorem slider_score_is_reference_witness:
  "\<not> usesDecisions (sliderGame [50, 50, 50, 50, 50] [60, 75, 100, 80, 60])
   \<and> length (payrollDecisions (sliderGame [50, 50, 50, 50, 50] [60, 75, 100, 80, 60])) = 5
   \<and> length (idealCurveOf (sliderGame [50, 50, 50, 50, 50] [60, 75, 100, 80, 60])) = 5
   \<and> payrollRange (payrollDecisions (sliderGame [50, 50, 50, 50, 50] [60, 75, 100, 80, 60]))
   \<and> payrollRange (idealCurveOf (sliderGame [50, 50, 50, 50, 50] [60, 75, 100, 80, 60]))
   \<and> healthScore (calculateHealthScore (sliderGame [50, 50, 50, 50, 50] [60, 75, 100, 80, 60]))
       = Some (referenceScore [50, 50, 50, 50, 50] [60, 75, 100, 80, 60])
   \<and> referenceScore [50, 50, 50, 50, 50] [60, 75, 100, 80, 60] = 33"
proof -
  have h: "\<not> usesDecisions (sliderGame [50, 50, 50, 50, 50] [60, 75, 100, 80, 60])"
    "length (payrollDecisions (sliderGame [50, 50, 50, 50, 50] [60, 75, 100, 80, 60])) = 5"
    "length (idealCurveOf (sliderGame [50, 50, 50, 50, 50] [60, 75, 100, 80, 60])) = 5"
    "payrollRange (payrollDecisions (sliderGame [50, 50, 50, 50, 50] [60, 75, 100, 80, 60]))"
    "payrollRange (idealCurveOf (sliderGame [50, 50, 50, 50, 50] [60, 75, 100, 80, 60]))"
    by (simp_all add: sliderGame_simps payrollRange_simps)
  have v: "referenceScore [50, 50, 50, 50, 50] [60, 75, 100, 80, 60] = 33"
    by code_simp
  show ?thesis
    using h v slider_score_is_reference [OF h]
    by (simp add: sliderGame_simps)
qed

subsection \<open>C3: a curve equal to its target\<close>

text \<open>
  C3 says that a curve equal to its target scores 100 less at most the flatline penalty,
  and that the flat curve of 75 scores 85.  The code also grants the peak bonus of 5,
  since the two peaks coincide.  As amended: in slider mode a curve of five entries
  between 0 and 150 that equals its target scores 100 when its population variance is at
  least 50 and 90 when it is under 50; the flat curve of 75 scores 90.
\<close>

theorem matching_curve_score:
  assumes "\<not> usesDecisions g"
    and "length (payrollDecisions g) = 5" and "idealCurveOf g = payrollDecisions g"
    and "payrollRange (payrollDecisions g)"
  shows "healthScore (calculateHealthScore g)
           = Some (if populationVariance (payrollDecisions g) < 50 then 90 else 100)"
  using assms by (simp add: healthScore_slider sliderScore_same)

text \<open>Three matching curves: variance 220, variance exactly 50, and variance under 50.\<close>

theorem matching_curve_score_witness:
  "\<not> usesDecisions (sliderGame [60, 75, 100, 80, 60] [60, 75, 100, 80, 60])
   \<and> payrollRange [60, 75, 100, 80, 60]
   \<and> populationVariance [60, 75, 100, 80, 60] = 220
   \<and> healthScore (calculateHealthScore (sliderGame [60, 75, 100, 80, 60] [60, 75, 100, 80, 60]))
       = Some 100
   \<and> payrollRange [65, 70, 75, 80, 85]
   \<and> populationVariance [65, 70, 75, 80, 85] = 50
   \<and> healthScore (calculateHealthScore (sliderGame [65, 70, 75, 80, 85] [65, 70, 75, 80, 85]))
       = Some 100
   \<and> payrollRange [66, 70, 75, 80, 85]
   \<and> populationVariance [66, 70, 75, 80, 85] < 50
   \<and> healthScore (calculateHealthScore (sliderGame [66, 70, 75, 80, 85] [66, 70, 75, 80, 85]))
       = Some 90"
proof -
  have v: "populationVariance [60, 75, 100, 80, 60] = 220"
    "populationVariance [65, 70, 75, 80, 85] = 50"
    "populationVariance [66, 70, 75, 80, 85] < 50"
    by code_simp+
  have r: "payrollRange [60, 75, 100, 80, 60]" "payrollRange [65, 70, 75, 80, 85]"
    "payrollRange [66, 70, 75, 80, 85]"
    by (simp_all add: payrollRange_simps)
  show ?thesis
    using matching_curve_score [of "sliderGame [60, 75, 100, 80, 60] [60, 75, 100, 80, 60]"]
      matching_curve_score [of "sliderGame [65, 70, 75, 80, 85] [65, 70, 75, 80, 85]"]
      matching_curve_score [of "sliderGame [66, 70, 75, 80, 85] [66, 70, 75, 80, 85]"]
    by (simp add: sliderGame_simps v r)
qed

text \<open>The flat curve of 75 against itself scores 90, not 85.\<close>

theorem flat_target_scores_90:
  "healthScore (calculateHealthScore (sliderGame [75, 75, 75, 75, 75] [75, 75, 75, 75, 75]))
     = Some 90"
  by code_simp

subsection \<open>C4: the resolution order of determinePath\<close>

text \<open>
  C4. For every triple of integer path accumulators, determinePath follows the
  resolution order of the specification: hybrid if it equals the maximum and strictly
  exceeds the minimum of winNow and rebuild; else winNow if it equals the maximum and
  strictly exceeds rebuild; else rebuild if it equals the maximum; else hybrid.
\<close>

theorem determinePath_resolution_order:
  "determinePath (e\<lparr>pathScores := \<lparr>winNow = w, rebuild = r, hybrid = h\<rparr>\<rparr>)
     = determinePath_spec w r h"
  by (simp add: determinePath_def determinePath_spec_def Let_def max_def min_def)

theorem determinePath_resolution_order_witness:
  "determinePath (newDecisionEngine winNowTeam\<lparr>pathScores := \<lparr>winNow = 3, rebuild = 7, hybrid = 7\<rparr>\<rparr>)
     = ''hybrid''"
  using determinePath_resolution_order [where e = "newDecisionEngine winNowTeam" and w = 3 and r = 7 and h = 7]
  by (simp add: determinePath_spec_def)

subsection \<open>C5: three accumulator triples\<close>

text \<open>
  C5 says that determinePath returns hybrid for the accumulators 10, 10, 10, winNow for
  12, 10, 10 and rebuild for 5, 12, 5.  The code returns rebuild for 10, 10, 10: hybrid
  does not strictly exceed the minimum, winNow does not strictly exceed rebuild, and the
  third test, rebuild equals the maximum, holds.  The other two triples give winNow and
  rebuild.
\<close>

theorem determinePath_all_equal_is_rebuild:
  "determinePath (e\<lparr>pathScores := \<lparr>winNow = 10, rebuild = 10, hybrid = 10\<rparr>\<rparr>) = ''rebuild''
   \<and> determinePath (e\<lparr>pathScores := \<lparr>winNow = 12, rebuild = 10, hybrid = 10\<rparr>\<rparr>) = ''winNow''
   \<and> determinePath (e\<lparr>pathScores := \<lparr>winNow = 5, rebuild = 12, hybrid = 5\<rparr>\<rparr>) = ''rebuild''"
  by (simp add: determinePath_def Let_def)

subsection \<open>C6: tiers and claim codes\<close>

text \<open>
  C6. The tier, the claim code and the XP are a fixed function of the final score and of
  the path (none in slider mode): the table of section 6.  \<open>finishGame\<close> always returns,
  with the score that \<open>calculateHealthScore\<close> stores, the path of the decision engine in
  decision mode and no path otherwise, and the code, tier and XP of the tier chain at
  that score and path.  A score that is not a number earns no tier.  At the boundaries:
  84 is silver, 85 gold, 54 none, 55 bronze.
\<close>

theorem finishGame_tier_table:
  "(pth = None \<or> pth = Some ''winNow'' \<or> pth = Some ''rebuild'' \<or> pth = Some ''hybrid''
      \<longrightarrow> tierChain (Some s) pth
            = Inr (code_spec (tier_spec s) pth, tier_spec s, xp_spec (tier_spec s)))
   \<and> tierChain None pth = Inr (None, None, 0)
   \<and> (\<exists>r. finishGame g = Inr (r, calculateHealthScore (g\<lparr>isGameComplete := True\<rparr>))
          \<and> score r = healthScore (calculateHealthScore (g\<lparr>isGameComplete := True\<rparr>))
          \<and> path r = (if usesDecisions g then Some (determinePath (the (decisionEngine g)))
                       else None)
          \<and> tierChain (score r) (path r) = Inr (claimCode r, tier r, xp r))
   \<and> tierChain (Some 84) None = Inr (Some ''CURVE-301-SILVER'', Some ''SILVER'', 175)
   \<and> tierChain (Some 85) None = Inr (Some ''CURVE-301-GOLD'', Some ''GOLD'', 250)
   \<and> tierChain (Some 54) None = Inr (None, None, 0)
   \<and> tierChain (Some 55) None = Inr (Some ''CURVE-301-BRONZE'', Some ''BRONZE'', 125)"
proof -
  let ?g = "calculateHealthScore (g\<lparr>isGameComplete := True\<rparr>)"
  let ?pth = "if usesDecisions g then Some (determinePath (the (decisionEngine g))) else None"
  have uses: "usesDecisions ?g = usesDecisions g" and eng: "decisionEngine ?g = decisionEngine g"
    by (simp_all add: usesDecisions_def calculateHealthScore_def Let_def)
  have "?pth = None \<or> ?pth = Some ''winNow'' \<or> ?pth = Some ''rebuild'' \<or> ?pth = Some ''hybrid''"
    using determinePath_cases [of "the (decisionEngine g)"] by auto
  then obtain code t x where tc: "tierChain (healthScore ?g) ?pth = Inr (code, t, x)"
    using tierChain_total by blast
  have fin: "finishGame g
          = Inr (\<lparr>score = healthScore ?g, claimCode = code, tier = t, xp = x, path = ?pth\<rparr>, ?g)"
    unfolding finishGame_def Let_def uses eng tc by simp
  have third: "\<exists>r. finishGame g = Inr (r, ?g) \<and> score r = healthScore ?g \<and> path r = ?pth
                 \<and> tierChain (score r) (path r) = Inr (claimCode r, tier r, xp r)"
    unfolding fin using tc by simp
  show ?thesis
    using third tierChain_table [of pth s]
    by (simp add: tierChain_NaN tierChain_cases)
qed

text \<open>Gold on the winNow path at 85, bronze on the hybrid path at 69.\<close>

theorem finishGame_tier_table_witness:
  "tierChain (Some 85) (Some ''winNow'') = Inr (Some ''CURVE-301-CHAMPION'', Some ''GOLD'', 250)
   \<and> tierChain (Some 69) (Some ''hybrid'') = Inr (Some ''CURVE-301-BALANCED'', Some ''BRONZE'', 125)"
  using finishGame_tier_table [of "Some ''winNow''" 85 resetGame]
    finishGame_tier_table [of "Some ''hybrid''" 69 resetGame]
  by (simp add: tier_spec_cases xp_spec_simps code_spec_simps)

subsection \<open>C7: curves of another length\<close>

text \<open>
  C7 says that the score against a target fails with InvalidInput when the curve or the
  target does not have five entries, and that no score is produced.  The code checks no
  length and has no error to raise.  As amended: in slider mode the health score is
  \<^verbatim>\<open>NaN\<close> when the curve or the target has fewer than five entries, and a score from 0
  to 100 is produced when both have at least five; for a curve of exactly five entries
  and a target of five or more, all between 0 and 150, it is the reference computation,
  whose per-year points read the first five entries of the target and whose peak is
  that of the whole target.  No error is raised.
\<close>

theorem slider_score_without_length_check:
  assumes "\<not> usesDecisions g"
  shows "(length (payrollDecisions g) < 5 \<or> length (idealCurveOf g) < 5
            \<longrightarrow> healthScore (calculateHealthScore g) = None)
         \<and> (5 \<le> length (payrollDecisions g) \<and> 5 \<le> length (idealCurveOf g)
            \<longrightarrow> (\<exists>s. healthScore (calculateHealthScore g) = Some s \<and> 0 \<le> s \<and> s \<le> 100))
         \<and> (length (payrollDecisions g) = 5 \<and> 5 \<le> length (idealCurveOf g)
              \<and> payrollRange (payrollDecisions g) \<and> payrollRange (idealCurveOf g)
            \<longrightarrow> healthScore (calculateHealthScore g)
                  = Some (referenceScore (payrollDecisions g) (idealCurveOf g)))"
proof -
  have short: "healthScore (calculateHealthScore g) = None"
    if "length (payrollDecisions g) < 5 \<or> length (idealCurveOf g) < 5"
    using assms that by (simp add: healthScore_slider sliderScore_short)
  have long: "healthScore (calculateHealthScore g)
                = Some (referenceScore (payrollDecisions g) (idealCurveOf g))"
    if "5 \<le> length (payrollDecisions g)" and "5 \<le> length (idealCurveOf g)"
    using assms that by (simp add: healthScore_slider sliderScore_reference)
  have some: "\<exists>s. healthScore (calculateHealthScore g) = Some s \<and> 0 \<le> s \<and> s \<le> 100"
    if "5 \<le> length (payrollDecisions g)" and "5 \<le> length (idealCurveOf g)"
    using long [OF that] referenceScore_range by simp
  from short some long show ?thesis
    by simp
qed

text \<open>
  A target of four entries; a curve of six entries; a curve of five entries against a
  target of six.
\<close>

theorem slider_score_without_length_check_witness:
  "\<not> usesDecisions (sliderGame [60, 75, 100, 80, 60] [60, 75, 100, 80])
   \<and> healthScore (calculateHealthScore (sliderGame [60, 75, 100, 80, 60] [60, 75, 100, 80])) = None
   \<and> (\<exists>s. healthScore (calculateHealthScore (sliderGame [60, 75, 100, 80, 60, 70] [60, 75, 100, 80, 60]))
             = Some s \<and> 0 \<le> s \<and> s \<le> 100)
   \<and> payrollRange [55, 75, 100, 80, 60] \<and> payrollRange [60, 75, 100, 80, 60, 90]
   \<and> referenceScore [55, 75, 100, 80, 60] [60, 75, 100, 80, 60, 90] = 100
   \<and> healthScore (calculateHealthScore (sliderGame [55, 75, 100, 80, 60] [60, 75, 100, 80, 60, 90]))
       = Some 100"
proof -
  have r: "payrollRange [55, 75, 100, 80, 60]" "payrollRange [60, 75, 100, 80, 60, 90]"
    by (simp_all add: payrollRange_simps)
  have v: "referenceScore [55, 75, 100, 80, 60] [60, 75, 100, 80, 60, 90] = 100"
    by code_simp
  show ?thesis
    using slider_score_without_length_check [of "sliderGame [60, 75, 100, 80, 60] [60, 75, 100, 80]"]
      slider_score_without_length_check
        [of "sliderGame [60, 75, 100, 80, 60, 70] [60, 75, 100, 80, 60]"]
      slider_score_without_length_check
        [of "sliderGame [55, 75, 100, 80, 60] [60, 75, 100, 80, 60, 90]"]
    by (simp add: sliderGame_simps r v)
qed

text \<open>A target of six entries is scored: the session gets the health score 100.\<close>

theorem six_entry_target_is_scored:
  "length [60, 75, 100, 80, 60, 0 :: int] = 6
   \<and> healthScore (calculateHealthScore (sliderGame [60, 75, 100, 80, 60] [60, 75, 100, 80, 60, 0]))
       = Some 100"
  by code_simp

subsection \<open>C8: years out of range and unknown options\<close>

text \<open>
  C8 says that setPayroll and availableOptions fail with InvalidYear for a year outside
  1 to 5, that applyDecision fails with UnknownOption for an option the catalogue does
  not hold under the year, and that no session state is mutated.  The state is indeed
  left as it is, but nothing fails.  As amended: for a year outside 1 to 5 setPayroll
  returns the state unchanged; availableOptions only reads the engine and returns the
  empty list for a year under which the catalogue holds nothing; applyDecision returns
  \<^verbatim>\<open>null\<close> for an option the catalogue does not hold under the year (and
  \<^verbatim>\<open>GameEngine.applyDecision\<close> also when there is no decision engine); in each case the
  engine and the game state are unchanged and no error is raised.
\<close>

theorem invalid_calls_are_ignored:
  "(year < 1 \<or> 5 < year \<longrightarrow> setPayroll year payrollPercent g = g)
   \<and> (year \<notin> set (catalogueYears e) \<longrightarrow> getAvailableDecisions e year = [])
   \<and> (decisionId \<notin> set (map id' (getAllDecisions e year))
        \<longrightarrow> applyDecision year decisionId e = (None, e)
            \<and> (decisionEngine g = Some e \<longrightarrow> GameEngine_applyDecision year decisionId g = (None, g)))
   \<and> (decisionEngine g = None \<longrightarrow> GameEngine_applyDecision year decisionId g = (None, g))"
proof -
  have a: "setPayroll year payrollPercent g = g" if "year < 1 \<or> 5 < year"
    using that by (auto simp add: setPayroll_def)
  have b: "getAvailableDecisions e year = []" if "year \<notin> set (catalogueYears e)"
    using that by (simp add: getAvailableDecisions_filter getAllDecisions_no_year)
  have c: "applyDecision year decisionId e = (None, e)"
    if "decisionId \<notin> set (map id' (getAllDecisions e year))"
    using findDecision_unknown [OF that] by (simp add: applyDecision_def)
  have d: "GameEngine_applyDecision year decisionId g = (None, g)"
    if "decisionId \<notin> set (map id' (getAllDecisions e year))" and "decisionEngine g = Some e"
    using c [OF that(1)] that(2) by (simp add: GameEngine_applyDecision_def)
  have e: "GameEngine_applyDecision year decisionId g = (None, g)" if "decisionEngine g = None"
    using that by (simp add: GameEngine_applyDecision_def)
  from a b c d e show ?thesis
    by blast
qed

text \<open>
  The years 0 and 6 and the unknown option Z on the session of the winNow team, and a
  decision applied to a session without decision engine.
\<close>

theorem invalid_calls_are_ignored_witness:
  "setPayroll 0 99 (initGame winNowTeam) = initGame winNowTeam
   \<and> setPayroll 6 99 (initGame winNowTeam) = initGame winNowTeam
   \<and> getAvailableDecisions (newDecisionEngine winNowTeam) 6 = []
   \<and> applyDecision 1 ''Z'' (newDecisionEngine winNowTeam) = (None, newDecisionEngine winNowTeam)
   \<and> decisionEngine (initGame winNowTeam) = Some (newDecisionEngine winNowTeam)
   \<and> GameEngine_applyDecision 1 ''Z'' (initGame winNowTeam) = (None, initGame winNowTeam)
   \<and> GameEngine_applyDecision 1 ''A'' resetGame = (None, resetGame)"
proof -
  have y: "6 \<notin> set (catalogueYears (newDecisionEngine winNowTeam))"
    by (simp add: catalogueYears_def newDecisionEngine_def winNowTeam_def)
  have z: "''Z'' \<notin> set (map id' (getAllDecisions (newDecisionEngine winNowTeam) 1))"
    by (simp add: getAllDecisions_def newDecisionEngine_def winNowTeam_def optionA_def optionR_def)
  have n: "decisionEngine (initGame winNowTeam) = Some (newDecisionEngine winNowTeam)"
    by (simp add: initGame_def winNowTeam_def calculateHealthScore_def Let_def)
  have r: "decisionEngine resetGame = None"
    by (simp add: resetGame_def)
  show ?thesis
    using invalid_calls_are_ignored [of 0 99 "initGame winNowTeam" "newDecisionEngine winNowTeam" "''A''"]
      invalid_calls_are_ignored [of 6 99 "initGame winNowTeam" "newDecisionEngine winNowTeam" "''A''"]
      invalid_calls_are_ignored [of 1 99 "initGame winNowTeam" "newDecisionEngine winNowTeam" "''Z''"]
      invalid_calls_are_ignored [of 1 99 resetGame "newDecisionEngine winNowTeam" "''A''"]
      y z n r
    by simp
qed

text \<open>
  Nothing tells the caller that a year was out of range.  On a fresh slider session the
  call \<^verbatim>\<open>setPayroll(0, 99)\<close> returns exactly what the accepted call \<^verbatim>\<open>setPayroll(1, 50)\<close>
  returns; and \<^verbatim>\<open>getAvailableDecisions(6)\<close> serves the year 6 when the catalogue holds
  decisions under it.
\<close>

theorem invalid_year_not_signalled:
  "setPayroll 0 99
      (initGame \<lparr>idealCurve = [60, 75, 100, 80, 60], startingPayroll = 50, teamDecisions = None\<rparr>)
     = setPayroll 1 50
        (initGame \<lparr>idealCurve = [60, 75, 100, 80, 60], startingPayroll = 50, teamDecisions = None\<rparr>)
   \<and> getAvailableDecisions (newDecisionEngine sixYearTeam) 6 = [optionB]"
proof -
  have "replicate 5 (50 :: int) = [50, 50, 50, 50, 50]"
    by (simp add: eval_nat_numeral)
  then show ?thesis
    by (simp add: setPayroll_def initGame_def calculateHealthScore_def Let_def usesDecisions_def
        idealCurveOf_def getAvailableDecisions_def newDecisionEngine_def sixYearTeam_def
        optionB_def)
qed

subsection \<open>C9: tags and weights only accumulate\<close>

text \<open>
  C9. Along every sequence of applyDecision calls on one engine the active tag set only
  grows: the tags after a prefix of the calls are still there after the whole sequence.
  After the calls the tag set is the initial one joined with the lock and unlock tags of
  every applied decision, and each path accumulator is its initial value plus the weights
  of every applied decision, whether or not a later call chose again for the same year:
  nothing is retracted.
\<close>

theorem tags_and_weights_only_accumulate:
  "activeFlags (applyDecisions calls e) \<subseteq> activeFlags (applyDecisions (calls @ later) e)
   \<and> activeFlags (applyDecisions calls e)
       = activeFlags e \<union> (\<Union>d \<in> set (appliedDecisions e calls). set (lock d) \<union> set (unlock d))
   \<and> winNow (pathScores (applyDecisions calls e))
       = winNow (pathScores e) + (\<Sum>d\<leftarrow>appliedDecisions e calls. weightOf d ''winNow'')
   \<and> rebuild (pathScores (applyDecisions calls e))
       = rebuild (pathScores e) + (\<Sum>d\<leftarrow>appliedDecisions e calls. weightOf d ''rebuild'')
   \<and> hybrid (pathScores (applyDecisions calls e))
       = hybrid (pathScores e) + (\<Sum>d\<leftarrow>appliedDecisions e calls. weightOf d ''hybrid'')"
proof -
  have "activeFlags (applyDecisions calls e) \<subseteq> activeFlags (applyDecisions (calls @ later) e)"
    unfolding applyDecisions_append
    using applyDecisions_accumulate [of later "applyDecisions calls e"] by blast
  then show ?thesis
    using applyDecisions_accumulate [of calls e] by simp
qed

text \<open>
  Year 1 chosen twice, first A, then R: the slot holds R, the tags of both are active and
  the weights of both are counted.
\<close>

theorem tags_and_weights_only_accumulate_witness:
  "appliedDecisions (newDecisionEngine winNowTeam) [(1, ''A''), (1, ''R'')] = [optionA, optionR]
   \<and> decisions (applyDecisions [(1, ''A''), (1, ''R'')] (newDecisionEngine winNowTeam))
       = [Some ''R'', None, None, None, None]
   \<and> activeFlags (applyDecisions [(1, ''A''), (1, ''R'')] (newDecisionEngine winNowTeam))
       = {''rebuild_mode'', ''star_signed'', ''sign_fa'', ''young_core''}
   \<and> winNow (pathScores (applyDecisions [(1, ''A''), (1, ''R'')] (newDecisionEngine winNowTeam))) = 15
   \<and> rebuild (pathScores (applyDecisions [(1, ''A''), (1, ''R'')] (newDecisionEngine winNowTeam))) = 10
   \<and> hybrid (pathScores (applyDecisions [(1, ''A''), (1, ''R'')] (newDecisionEngine winNowTeam))) = 10"
proof -
  have a: "appliedDecisions (newDecisionEngine winNowTeam) [(1, ''A''), (1, ''R'')] = [optionA, optionR]"
    by (simp add: appliedDecisions_def List.map_filter_simps findDecision_def getAllDecisions_def
        newDecisionEngine_def winNowTeam_def optionA_def optionR_def)
  have d: "decisions (applyDecisions [(1, ''A''), (1, ''R'')] (newDecisionEngine winNowTeam))
       = [Some ''R'', None, None, None, None]"
    by code_simp
  have w: "weightOf optionA ''winNow'' + weightOf optionR ''winNow'' = 15"
    "weightOf optionA ''rebuild'' + weightOf optionR ''rebuild'' = 10"
    "weightOf optionA ''hybrid'' + weightOf optionR ''hybrid'' = 10"
    by (simp_all add: weightOf_def optionA_def optionR_def)
  have z: "activeFlags (newDecisionEngine winNowTeam) = {}"
    "pathScores (newDecisionEngine winNowTeam) = \<lparr>winNow = 0, rebuild = 0, hybrid = 0\<rparr>"
    by (simp_all add: newDecisionEngine_def)
  note t = tags_and_weights_only_accumulate
      [of "[(1, ''A''), (1, ''R'')]" "newDecisionEngine winNowTeam" "[]", unfolded a]
  have flags: "activeFlags (applyDecisions [(1, ''A''), (1, ''R'')] (newDecisionEngine winNowTeam))
       = {''rebuild_mode'', ''star_signed'', ''sign_fa'', ''young_core''}"
    using t by (auto simp add: z optionA_def optionR_def)
  have weights:
    "winNow (pathScores (applyDecisions [(1, ''A''), (1, ''R'')] (newDecisionEngine winNowTeam))) = 15"
    "rebuild (pathScores (applyDecisions [(1, ''A''), (1, ''R'')] (newDecisionEngine winNowTeam))) = 10"
    "hybrid (pathScores (applyDecisions [(1, ''A''), (1, ''R'')] (newDecisionEngine winNowTeam))) = 10"
    using t w by (simp_all add: z)
  show ?thesis
    using a d flags weights by simp
qed

subsection \<open>C10: scoreByPath on any path name\<close>

text \<open>
  C10. scoreByPath is defined for every path name: a name other than winNow and rebuild,
  a name outside the three paths included, gets the hybrid scoring of the curve.
\<close>

theorem scoreByPath_default_is_hybrid:
  "p \<noteq> ''winNow'' \<Longrightarrow> p \<noteq> ''rebuild'' \<Longrightarrow> scoreByPath p curve = scoreByPath ''hybrid'' curve"
  by (simp add: scoreByPath_def)

theorem scoreByPath_default_is_hybrid_witness:
  "''bogus'' \<noteq> ''winNow'' \<and> ''bogus'' \<noteq> ''rebuild''
   \<and> scoreByPath ''bogus'' [75, 75, 78, 66, 90] = scoreByPath ''hybrid'' [75, 75, 78, 66, 90]
   \<and> scoreByPath ''hybrid'' [75, 75, 78, 66, 90] = 65"
  using scoreByPath_default_is_hybrid [of "''bogus''" "[75, 75, 78, 66, 90]"]
  by (simp add: scoreByPath_def)

end
